theory Spec2Isabelle
  imports Complex_Main "HOL-Library.AList"
begin

section \<open>Python values, errors and library parameters\<close>

text \<open>
  The repository is Python 2. The values that flow through \<^verbatim>\<open>robottelo/orm.py\<close> and
  \<^verbatim>\<open>robottelo/cli/factory.py\<close> are modelled by one datatype. A dictionary is an
  association list with string keys, read with \<open>map_of\<close>; an entity instance carries the
  name of its class and the keyword arguments it was constructed from. Floats are idealised
  as reals; no property below computes with them.
\<close>

datatype pyval =
    PNone
  | PBool bool
  | PInt int
  | PFloat real
  | PStr string
  | PList "pyval list"
  | PTuple "pyval list"
  | PDict "(string \<times> pyval) list"
  | PInst string "(string \<times> pyval) list"

type_synonym pydict = "(string \<times> pyval) list"

text \<open>Every exception the modelled code can raise is a value; \<open>Inl\<close> carries it.\<close>

datatype error =
    NoSuchPathError
  | CLIFactoryError string
  | AttributeError
  | FieldError
  | TypeError
  | ValueError

text \<open>
  Builtins and standard-library functions of Python that the code calls but that are not part
  of the repository are parameters: \<^verbatim>\<open>urlparse.urljoin\<close>, \<^verbatim>\<open>str\<close> and \<^verbatim>\<open>repr\<close>.
\<close>

record pylib =
  urljoin :: "string \<Rightarrow> string \<Rightarrow> string"
  str :: "pyval \<Rightarrow> string"
  repr :: "pyval \<Rightarrow> string"

text \<open>Python's truth value of an object, as used by \<^verbatim>\<open>not x\<close> and \<^verbatim>\<open>any(...)\<close>.\<close>

fun truthy :: "pyval \<Rightarrow> bool" where
  "truthy PNone = False"
| "truthy (PBool b) = b"
| "truthy (PInt i) = (i \<noteq> 0)"
| "truthy (PFloat x) = (x \<noteq> 0)"
| "truthy (PStr s) = (s \<noteq> [])"
| "truthy (PList xs) = (xs \<noteq> [])"
| "truthy (PTuple xs) = (xs \<noteq> [])"
| "truthy (PDict d) = (d \<noteq> [])"
| "truthy (PInst c kw) = True"

text \<open>\<^verbatim>\<open>d.get(key)\<close> and \<^verbatim>\<open>d.get(key, None)\<close>: the value stored, or \<^verbatim>\<open>None\<close>.\<close>

definition dict_get :: "pydict \<Rightarrow> string \<Rightarrow> pyval" where
  "dict_get d key = (case map_of d key of None \<Rightarrow> PNone | Some v \<Rightarrow> v)"

text \<open>\<^verbatim>\<open>dict(pairs)\<close>: a dictionary built from a sequence of pairs, later pairs winning.\<close>

definition dict_of_pairs :: "(string \<times> pyval) list \<Rightarrow> pydict" where
  "dict_of_pairs pairs = fold (\<lambda>(k, v) d. AList.update k v d) pairs []"

section \<open>\<^verbatim>\<open>robottelo/orm.py\<close>: entities\<close>

text \<open>
  An instance of a subclass of \<^verbatim>\<open>Entity\<close>: the \<^verbatim>\<open>api_path\<close> of its inner class
  \<^verbatim>\<open>Meta\<close> (which a subclass has to set before \<^verbatim>\<open>path\<close> may be used, as the comment in
  \<^verbatim>\<open>path\<close> says), the names of the declared fields, the defaults that the declarations
  of these fields carry, and the values assigned so far.

  Reading a field is \<^verbatim>\<open>booby\<close>'s \<^verbatim>\<open>Field.__get__\<close>: the value assigned, and for a field
  that was never assigned the default of its declaration, which is \<^verbatim>\<open>None\<close> when the
  declaration has none. A default that is a callable is not modelled.
\<close>

record entity =
  api_path :: string
  field_names :: "string list"
  defaults :: pydict
  data :: pydict

definition getattr :: "entity \<Rightarrow> string \<Rightarrow> pyval" where
  "getattr self field =
     (case map_of (data self) field of
        Some v \<Rightarrow> v
      | None \<Rightarrow> dict_get (defaults self) field)"

text \<open>
  \<^verbatim>\<open>Entity.path(self, which=None)\<close>. The argument \<open>server_url\<close> is the value of
  \<^verbatim>\<open>helpers.get_server_url()\<close>; \<open>which\<close> is \<open>None\<close> or a string.
\<close>

definition path :: "pylib \<Rightarrow> string \<Rightarrow> entity \<Rightarrow> string option \<Rightarrow> error + string" where
  "path py server_url self which =
     (let base = urljoin py (server_url @ ''/'') (api_path self) in
      if which = Some ''all'' \<or> which = None \<and> getattr self ''id'' = PNone
        then Inr base
      else if getattr self ''id'' \<noteq> PNone \<and> (which = None \<or> which = Some ''this'')
        then Inr (urljoin py (base @ ''/'') (str py (getattr self ''id'')))
      else Inl NoSuchPathError)"

text \<open>
  \<^verbatim>\<open>dict(self)\<close> inside \<^verbatim>\<open>Entity.get_values\<close>: iterating a \<^verbatim>\<open>booby.Model\<close> yields one
  pair per declared field, the field's name with its current value after \<^verbatim>\<open>booby\<close> has
  converted it: a value that is itself a model becomes the dictionary of all its fields, and
  so does each model in a list. That conversion belongs to \<^verbatim>\<open>booby\<close> and is the
  parameter \<open>encode\<close>.
\<close>

definition dict_self :: "(pyval \<Rightarrow> pyval) \<Rightarrow> entity \<Rightarrow> pydict" where
  "dict_self encode self =
     dict_of_pairs (map (\<lambda>name. (name, encode (getattr self name))) (field_names self))"

text \<open>
  \<^verbatim>\<open>Entity.get_values(self)\<close>. The loop runs over \<^verbatim>\<open>fields.items()\<close>, which in Python 2
  is a list copied before the loop starts, and pops every key whose value is \<^verbatim>\<open>None\<close>.
\<close>

definition get_values :: "(pyval \<Rightarrow> pyval) \<Rightarrow> entity \<Rightarrow> pydict" where
  "get_values encode self =
     (let fields = dict_self encode self in
      fold (\<lambda>(key, value) fields. if value = PNone then AList.delete key fields else fields)
        fields fields)"

text \<open>Field assignment as \<^verbatim>\<open>booby\<close> performs it: the value is stored under the field's name.\<close>

definition setattr :: "entity \<Rightarrow> string \<Rightarrow> pyval \<Rightarrow> entity" where
  "setattr self field value = self\<lparr>data := AList.update field value (data self)\<rparr>"

section \<open>\<^verbatim>\<open>robottelo/orm.py\<close>: fields\<close>

text \<open>
  \<^verbatim>\<open>FauxFactory\<close> and \<^verbatim>\<open>random\<close> are third-party: their generators are parameters, each
  reading a random seed and free to raise. \<^verbatim>\<open>FauxFactory.generate_choice\<close> is fixed further:
  of a non-empty list, tuple or string it returns the element at a random index, an element of
  a string being a string of one character; for an empty one, for \<^verbatim>\<open>None\<close>, for a
  dictionary and for a value that cannot be iterated it raises \<^verbatim>\<open>ValueError\<close>. An entity
  instance is not a set of choices, and the model raises for it as well.
\<close>

record fauxfactory =
  generate_boolean :: "nat \<Rightarrow> error + pyval"
  generate_email :: "nat \<Rightarrow> error + pyval"
  generate_integer :: "nat \<Rightarrow> pyval \<Rightarrow> pyval \<Rightarrow> error + pyval"
  generate_string :: "nat \<Rightarrow> pyval \<Rightarrow> pyval \<Rightarrow> error + pyval"
  generate_ipaddr :: "nat \<Rightarrow> error + pyval"
  generate_mac :: "nat \<Rightarrow> error + pyval"
  generate_url :: "nat \<Rightarrow> error + pyval"
  random_random :: "nat \<Rightarrow> real"

fun generate_choice :: "nat \<Rightarrow> pyval \<Rightarrow> error + pyval" where
  "generate_choice rnd (PList choices) =
     (if choices = [] then Inl ValueError else Inr (choices ! (rnd mod length choices)))"
| "generate_choice rnd (PTuple choices) =
     (if choices = [] then Inl ValueError else Inr (choices ! (rnd mod length choices)))"
| "generate_choice rnd (PStr choices) =
     (if choices = [] then Inl ValueError else Inr (PStr [choices ! (rnd mod length choices)]))"
| "generate_choice rnd other = Inl ValueError"

text \<open>
  The second argument of \<^verbatim>\<open>_get_value\<close>: either a callable, which is run on the random
  seed, or a value that the caller has computed already.
\<close>

datatype dflt = Callable "nat \<Rightarrow> error + pyval" | Plain pyval

text \<open>
  \<^verbatim>\<open>_get_value(field, default)\<close>, here \<open>orm_get_value\<close> (a name cannot start with an
  underscore). The first argument is \<^verbatim>\<open>field.options\<close>, the keyword arguments the field was
  declared with.
\<close>

definition orm_get_value :: "nat \<Rightarrow> pydict \<Rightarrow> dflt \<Rightarrow> error + pyval" where
  "orm_get_value rnd options default' =
     (case map_of options ''default'' of
        Some d \<Rightarrow> Inr d
      | None \<Rightarrow>
         (case map_of options ''choices'' of
            Some choices \<Rightarrow> generate_choice rnd choices
          | None \<Rightarrow> (case default' of Callable f \<Rightarrow> f rnd | Plain v \<Rightarrow> Inr v)))"

text \<open>
  A relationship field names its target by the class itself or by the name of a class of the
  module \<^verbatim>\<open>robottelo.entities\<close>. \<^verbatim>\<open>_get_class(class_or_name)\<close>, here \<open>orm_get_class\<close>,
  resolves either to a class; \<open>entities_module\<close> is the name space of \<^verbatim>\<open>robottelo.entities\<close>.
\<close>

datatype class_or_name = Class string | Name string

fun orm_get_class :: "(string \<Rightarrow> string option) \<Rightarrow> class_or_name \<Rightarrow> error + string" where
  "orm_get_class entities_module (Class c) = Inr c"
| "orm_get_class entities_module (Name n) =
     (case entities_module n of None \<Rightarrow> Inl AttributeError | Some c \<Rightarrow> Inr c)"

text \<open>
  The field classes. Each carries its \<^verbatim>\<open>options\<close>; \<^verbatim>\<open>IntegerField\<close> also
  \<^verbatim>\<open>min_val\<close> and \<^verbatim>\<open>max_val\<close>; \<^verbatim>\<open>StringField\<close> and its subclasses \<^verbatim>\<open>max_len\<close> and
  \<^verbatim>\<open>str_type\<close>; the relationship fields their target.
\<close>

datatype field =
    BooleanField pydict
  | EmailField pydict
  | FloatField pydict
  | IntegerField pyval pyval pydict
  | StringField pyval pyval pydict
  | Field pydict
  | DateField pydict
  | DateTimeField pydict
  | IPAddressField pyval pyval pydict
  | ListField pydict
  | MACAddressField pyval pyval pydict
  | OneToOneField class_or_name pydict
  | OneToManyField class_or_name pydict
  | URLField pyval pyval pydict


text \<open>
  \<^verbatim>\<open>get_value(self)\<close> of each class. \<^verbatim>\<open>FloatField\<close> and \<^verbatim>\<open>IntegerField\<close> compute their
  fallback before \<^verbatim>\<open>_get_value\<close> is entered, the others pass a callable. The classes
  \<^verbatim>\<open>Field\<close>, \<^verbatim>\<open>DateField\<close>, \<^verbatim>\<open>DateTimeField\<close> and \<^verbatim>\<open>ListField\<close> define no
  \<^verbatim>\<open>get_value\<close>, so the attribute lookup fails. Calling an entity class without arguments
  gives an instance with nothing assigned.
\<close>

fun get_value :: "fauxfactory \<Rightarrow> (string \<Rightarrow> string option) \<Rightarrow> nat \<Rightarrow> field \<Rightarrow> error + pyval" where
  "get_value faux entities_module rnd (BooleanField opts) =
     orm_get_value rnd opts (Callable (generate_boolean faux))"
| "get_value faux entities_module rnd (EmailField opts) =
     orm_get_value rnd opts (Callable (generate_email faux))"
| "get_value faux entities_module rnd (FloatField opts) =
     orm_get_value rnd opts (Plain (PFloat (random_random faux rnd * 10000)))"
| "get_value faux entities_module rnd (IntegerField min_val max_val opts) =
     (case generate_integer faux rnd min_val max_val of
        Inl e \<Rightarrow> Inl e
      | Inr v \<Rightarrow> orm_get_value rnd opts (Plain v))"
| "get_value faux entities_module rnd (StringField max_len str_type opts) =
     orm_get_value rnd opts (Callable (\<lambda>r.
       case generate_choice r str_type of
         Inl e \<Rightarrow> Inl e
       | Inr t \<Rightarrow>
          (case generate_integer faux r (PInt 1) max_len of
             Inl e \<Rightarrow> Inl e
           | Inr n \<Rightarrow> generate_string faux r t n)))"
| "get_value faux entities_module rnd (IPAddressField max_len str_type opts) =
     orm_get_value rnd opts (Callable (generate_ipaddr faux))"
| "get_value faux entities_module rnd (MACAddressField max_len str_type opts) =
     orm_get_value rnd opts (Callable (generate_mac faux))"
| "get_value faux entities_module rnd (URLField max_len str_type opts) =
     orm_get_value rnd opts (Callable (generate_url faux))"
| "get_value faux entities_module rnd (OneToOneField model opts) =
     (case orm_get_class entities_module model of
        Inl e \<Rightarrow> Inl e
      | Inr c \<Rightarrow> Inr (PInst c []))"
| "get_value faux entities_module rnd (OneToManyField entity opts) =
     (case orm_get_class entities_module entity of
        Inl e \<Rightarrow> Inl e
      | Inr c \<Rightarrow> Inr (PList [PInst c []]))"
| "get_value faux entities_module rnd (Field opts) = Inl AttributeError"
| "get_value faux entities_module rnd (DateField opts) = Inl AttributeError"
| "get_value faux entities_module rnd (DateTimeField opts) = Inl AttributeError"
| "get_value faux entities_module rnd (ListField opts) = Inl AttributeError"

text \<open>
  \<^verbatim>\<open>isinstance(value, cls)\<close>: Python raises \<^verbatim>\<open>TypeError\<close> when the second argument is not a
  class, as a string is not. \<open>issubclass\<close> is the subclass relation between the entity classes.
\<close>

fun isinstance :: "(string \<Rightarrow> string \<Rightarrow> bool) \<Rightarrow> pyval \<Rightarrow> class_or_name \<Rightarrow> error + bool" where
  "isinstance issubclass value (Name n) = Inl TypeError"
| "isinstance issubclass (PInst c kw) (Class c') = Inr (issubclass c c')"
| "isinstance issubclass value (Class c') = Inr False"

text \<open>
  \<^verbatim>\<open>self.entity(**value)\<close>: calling a string raises \<^verbatim>\<open>TypeError\<close>. Calling a class has
  \<^verbatim>\<open>booby\<close> assign each keyword to the field of that name; a keyword that names no declared
  field raises \<^verbatim>\<open>FieldError\<close>, otherwise the result is an instance of the class that holds
  the keyword arguments. \<open>fields_of\<close> gives the names of the fields that a class declares.
\<close>

fun construct :: "(string \<Rightarrow> string list) \<Rightarrow> class_or_name \<Rightarrow> pydict \<Rightarrow> error + pyval" where
  "construct fields_of (Class c) kwargs =
     (if \<forall>key \<in> set (map fst kwargs). key \<in> set (fields_of c)
      then Inr (PInst c kwargs) else Inl FieldError)"
| "construct fields_of (Name n) kwargs = Inl TypeError"

text \<open>
  The loop of \<^verbatim>\<open>OneToManyField.__set__\<close> over a list: every dictionary in it is replaced by
  an instance constructed from it, anything else stays.
\<close>

fun convert_items ::
  "(string \<Rightarrow> string list) \<Rightarrow> class_or_name \<Rightarrow> pyval list \<Rightarrow> error + pyval list" where
  "convert_items fields_of entity [] = Inr []"
| "convert_items fields_of entity (val # rest) =
     (case (case val of PDict d \<Rightarrow> construct fields_of entity d | other \<Rightarrow> Inr other) of
        Inl e \<Rightarrow> Inl e
      | Inr val' \<Rightarrow>
         (case convert_items fields_of entity rest of
            Inl e \<Rightarrow> Inl e
          | Inr rest' \<Rightarrow> Inr (val' # rest')))"

text \<open>
  \<^verbatim>\<open>OneToManyField.__set__(self, instance, value)\<close>, here \<open>OneToManyField_set\<close>: \<open>entity\<close> is
  \<^verbatim>\<open>self.entity\<close>, \<open>field\<close> the name under which the field is declared in the class of
  \<open>instance\<close>. The result is the instance after \<^verbatim>\<open>super().__set__\<close> has stored the value.
\<close>

definition OneToManyField_set ::
  "(string \<Rightarrow> string \<Rightarrow> bool) \<Rightarrow> (string \<Rightarrow> string list) \<Rightarrow> class_or_name \<Rightarrow> string \<Rightarrow> entity
     \<Rightarrow> pyval \<Rightarrow> error + entity" where
  "OneToManyField_set issubclass fields_of entity field instance value =
     (case isinstance issubclass value entity of
        Inl e \<Rightarrow> Inl e
      | Inr True \<Rightarrow> Inr (setattr instance field (PList [value]))
      | Inr False \<Rightarrow>
         (case value of
            PDict d \<Rightarrow>
              (case construct fields_of entity d of
                 Inl e \<Rightarrow> Inl e
               | Inr v \<Rightarrow> Inr (setattr instance field (PList [v])))
          | PList vals \<Rightarrow>
              (case convert_items fields_of entity vals of
                 Inl e \<Rightarrow> Inl e
               | Inr vals' \<Rightarrow> Inr (setattr instance field (PList vals')))
          | other \<Rightarrow> Inr (setattr instance field other)))"

section \<open>\<^verbatim>\<open>robottelo/cli/factory.py\<close>\<close>

text \<open>
  \<^verbatim>\<open>msg.split('\n')\<close> and \<^verbatim>\<open>u'\n'.join(lines)\<close> of Python, for a separator of one
  character: splitting keeps empty pieces and always gives at least one piece.
\<close>

fun str_split :: "char \<Rightarrow> string \<Rightarrow> string list" where
  "str_split sep [] = [[]]"
| "str_split sep (c # cs) =
     (if c = sep then [] # str_split sep cs
      else (case str_split sep cs of
              [] \<Rightarrow> [[c]]
            | line # lines \<Rightarrow> (c # line) # lines))"

fun str_join :: "char \<Rightarrow> string list \<Rightarrow> string" where
  "str_join sep [] = []"
| "str_join sep [line] = line"
| "str_join sep (line # next_line # lines) = line @ sep # str_join sep (next_line # lines)"

text \<open>\<^verbatim>\<open>_format_error_msg(msg)\<close>, here \<open>format_error_msg\<close>.\<close>

definition format_error_msg :: "string \<Rightarrow> string" where
  "format_error_msg msg =
     str_join (CHR 0x0A) (map (\<lambda>line. ''  '' @ line) (str_split (CHR 0x0A) msg))"

text \<open>
  The classes of \<^verbatim>\<open>robottelo.cli\<close> wrap the remote command-line tool and are not part of
  the modelled code: a CLI class is its \<^verbatim>\<open>__name__\<close> and its \<^verbatim>\<open>create\<close> method, which
  maps the submitted options to a result with \<^verbatim>\<open>return_code\<close>, \<^verbatim>\<open>stdout\<close> and
  \<^verbatim>\<open>stderr\<close>.
\<close>

record cli_result =
  return_code :: int
  stdout :: pyval
  stderr :: string

record cli_object =
  cls_name :: string
  create :: "pydict \<Rightarrow> cli_result"

text \<open>
  What a factory does to the outside world, in the order it happens: a submission to the
  backend, a pause of some seconds, a line for the debug log.
\<close>

datatype event = Create string pydict | Sleep nat | LogDebug string

text \<open>
  \<^verbatim>\<open>create_object(cli_object, args)\<close>: the events performed and then the exception raised
  or the value returned.
\<close>

definition create_object :: "pylib \<Rightarrow> cli_object \<Rightarrow> pydict \<Rightarrow> event list \<times> (error + pyval)" where
  "create_object py cli_object args =
     (let result = create cli_object args;
          events = [Create (cls_name cli_object) args, Sleep 5]
      in if return_code result \<noteq> 0
         then (events @ [LogDebug (stderr result)],
               Inl (CLIFactoryError
                 (''Failed to create '' @ cls_name cli_object @ '' with '' @ repr py (PDict args)
                    @ '' data due to:'' @ [CHR 0x0A] @ format_error_msg (stderr result))))
         else (events,
               Inr (case stdout result of
                      PList (first # rest) \<Rightarrow> first
                    | other \<Rightarrow> other)))"

text \<open>
  \<^verbatim>\<open>args.update(other)\<close>. A dictionary is merged over \<^verbatim>\<open>args\<close>. Any other value is
  iterated, and each of its elements has to be a pair, the key and the value to store: a list
  or tuple of two elements, or a string of two characters. An element that cannot be iterated
  and a value that cannot be iterated raise \<^verbatim>\<open>TypeError\<close>, an element of another length
  \<^verbatim>\<open>ValueError\<close>. The dictionaries of the model have strings as keys, as the parsed output
  of the command-line tool has; a pair with a key of another type, and an entity instance or a
  dictionary as an element or as the value iterated, do not occur there, and the model raises
  for them.
\<close>

fun update_pair :: "pyval \<Rightarrow> error + (string \<times> pyval)" where
  "update_pair (PList [PStr key, v]) = Inr (key, v)"
| "update_pair (PTuple [PStr key, v]) = Inr (key, v)"
| "update_pair (PStr [k, v]) = Inr ([k], PStr [v])"
| "update_pair PNone = Inl TypeError"
| "update_pair (PBool b) = Inl TypeError"
| "update_pair (PInt i) = Inl TypeError"
| "update_pair (PFloat x) = Inl TypeError"
| "update_pair other = Inl ValueError"

fun update_pairs :: "pydict \<Rightarrow> pyval list \<Rightarrow> error + pydict" where
  "update_pairs args [] = Inr args"
| "update_pairs args (element # rest) =
     (case update_pair element of
        Inl e \<Rightarrow> Inl e
      | Inr (key, v) \<Rightarrow> update_pairs (AList.update key v args) rest)"

fun dict_update :: "pydict \<Rightarrow> pyval \<Rightarrow> error + pydict" where
  "dict_update args (PDict other) = Inr (AList.merge args other)"
| "dict_update args (PList elements) = update_pairs args elements"
| "dict_update args (PTuple elements) = update_pairs args elements"
| "dict_update args (PStr s) = update_pairs args (map (\<lambda>c. PStr [c]) s)"
| "dict_update args (PInst c kw) = Inl TypeError"
| "dict_update args PNone = Inl TypeError"
| "dict_update args (PBool b) = Inl TypeError"
| "dict_update args (PInt i) = Inl TypeError"
| "dict_update args (PFloat x) = Inl TypeError"

text \<open>
  Modelled from the spec: \<^verbatim>\<open>robottelo.common.helpers.generate_name\<close> is not among the
  sources. The spec says of it only that a factory called without a name ``synthesizes a
  non-empty name''; the model draws at least one lower-case letter from the random seed, and
  at least \<open>minimum\<close> of them when the caller passes a minimum.
\<close>

definition generate_name :: "nat \<Rightarrow> nat option \<Rightarrow> string" where
  "generate_name rnd minimum =
     map (\<lambda>i. ''abcdefghijklmnopqrstuvwxyz'' ! ((rnd + i) mod 26))
       [0..<(case minimum of None \<Rightarrow> 1 | Some m \<Rightarrow> max 1 m)]"

text \<open>
  Modelled from the spec: \<^verbatim>\<open>robottelo.common.helpers.update_dictionary\<close> is not among the
  sources. The spec (Attribute Materialization) has the caller's overrides overlaid on the
  defaults, ``so explicit values always win over synthesized defaults, including overriding a
  \<^verbatim>\<open>None\<close> with \<^verbatim>\<open>None\<close>'', and the overlay ``must handle nested override dictionaries
  (non-conflicting keys merged, conflicting keys replaced) so partial overrides of compound
  attributes do not discard sibling keys''; without overrides the defaults stay.
  \<open>merge_dicts\<close> is that overlay: an override replaces the default of its key, except that a
  dictionary overriding a dictionary is overlaid on it in the same way.
\<close>

function merge_dicts :: "pydict \<Rightarrow> pydict \<Rightarrow> pydict" where
  "merge_dicts default' [] = default'"
| "merge_dicts default' ((key, v) # updates) =
     merge_dicts
       (AList.update key
          (case (map_of default' key, v) of
             (Some (PDict old), PDict new) \<Rightarrow> PDict (merge_dicts old new)
           | other \<Rightarrow> v)
          default')
       updates"
  by pat_completeness auto
termination
  by (relation "measure (\<lambda>(d, u). size_list (size_prod (\<lambda>k. 0) size) u)") auto

definition update_dictionary :: "pydict \<Rightarrow> pydict option \<Rightarrow> pydict" where
  "update_dictionary default' updates =
     (case updates of None \<Rightarrow> default' | Some u \<Rightarrow> merge_dicts default' u)"

definition ORG_KEYS :: "string list" where
  "ORG_KEYS = [''organization'', ''organization-id'', ''organization-label'']"

text \<open>
  \<^verbatim>\<open>make_activation_key(options=None)\<close>; \<open>ActivationKey\<close> is the CLI class of that name.
  \<^verbatim>\<open>not options\<close> holds for \<^verbatim>\<open>None\<close> and for the empty dictionary.
\<close>

definition make_activation_key ::
  "pylib \<Rightarrow> cli_object \<Rightarrow> nat \<Rightarrow> pydict option \<Rightarrow> event list \<times> (error + pydict)" where
  "make_activation_key py ActivationKey rnd options =
     (if (case options of None \<Rightarrow> True | Some opts \<Rightarrow>
            opts = []
            \<or> \<not> truthy (dict_get opts ''organization'')
              \<and> \<not> truthy (dict_get opts ''organization-label'')
              \<and> \<not> truthy (dict_get opts ''organization-id''))
      then ([], Inl (CLIFactoryError ''Please provide a valid Organization.''))
      else
        (let args = [(''content-view'', PNone),
                     (''content-view-id'', PNone),
                     (''description'', PNone),
                     (''lifecycle-environment'', PNone),
                     (''lifecycle-environment-id'', PNone),
                     (''max-content-hosts'', PNone),
                     (''name'', PStr (generate_name rnd None)),
                     (''organization'', PNone),
                     (''organization-id'', PNone),
                     (''organization-label'', PNone),
                     (''unlimited-content-hosts'', PBool True)];
             args = update_dictionary args options
         in case create_object py ActivationKey args of
              (events, Inl e) \<Rightarrow> (events, Inl e)
            | (events, Inr created) \<Rightarrow> (events, dict_update args created)))"

text \<open>\<^verbatim>\<open>make_org(options=None)\<close>; \<open>Org\<close> is the CLI class of that name.\<close>

definition make_org ::
  "pylib \<Rightarrow> cli_object \<Rightarrow> nat \<Rightarrow> pydict option \<Rightarrow> event list \<times> (error + pydict)" where
  "make_org py Org rnd options =
     (let args = [(''name'', PStr (generate_name rnd (Some 6))),
                  (''label'', PNone),
                  (''description'', PNone)];
          args = update_dictionary args options
      in case create_object py Org args of
           (events, Inl e) \<Rightarrow> (events, Inl e)
         | (events, Inr created) \<Rightarrow> (events, dict_update args created))"

section \<open>Classification and sample inputs\<close>



text \<open>Concrete stand-ins for the library parameters and the backend, on which examples are run.\<close>

definition sample_py :: pylib where
  "sample_py = \<lparr>urljoin = (\<lambda>base url. base @ url),
                 str = (\<lambda>v. case v of PStr s \<Rightarrow> s | other \<Rightarrow> ''7''),
                 repr = (\<lambda>v. ''{...}'')\<rparr>"

definition sample_faux :: fauxfactory where
  "sample_faux = \<lparr>generate_boolean = (\<lambda>rnd. Inr (PBool (even rnd))),
                   generate_email = (\<lambda>rnd. Inr (PStr ''a@example.com'')),
                   generate_integer = (\<lambda>rnd min_val max_val. Inr (PInt (int rnd))),
                   generate_string = (\<lambda>rnd str_type len. Inr (PStr ''abc'')),
                   generate_ipaddr = (\<lambda>rnd. Inr (PStr ''10.0.0.1'')),
                   generate_mac = (\<lambda>rnd. Inr (PStr ''aa:bb:cc:dd:ee:ff'')),
                   generate_url = (\<lambda>rnd. Inr (PStr ''http://example.com'')),
                   random_random = (\<lambda>rnd. 0)\<rparr>"

definition sample_cli :: "int \<Rightarrow> pyval \<Rightarrow> string \<Rightarrow> cli_object" where
  "sample_cli code out err =
     \<lparr>cls_name = ''Org'',
      create = (\<lambda>args. \<lparr>return_code = code, stdout = out, stderr = err\<rparr>)\<rparr>"

text \<open>
  A stand-in for the conversion of \<^verbatim>\<open>booby\<close>, for models whose nested instances declare the
  fields \<^verbatim>\<open>id\<close> and \<^verbatim>\<open>name\<close>.
\<close>

fun sample_encode_item :: "pyval \<Rightarrow> pyval" where
  "sample_encode_item (PInst c kw) =
     PDict (map (\<lambda>name. (name, dict_get kw name)) [''id'', ''name''])"
| "sample_encode_item other = other"

fun sample_encode :: "pyval \<Rightarrow> pyval" where
  "sample_encode (PList items) = PList (map sample_encode_item items)"
| "sample_encode other = sample_encode_item other"

definition sample_entity :: "pydict \<Rightarrow> entity" where
  "sample_entity assigned =
     \<lparr>api_path = ''api/v2/domains'', field_names = [''id'', ''name'', ''description''],
      defaults = [], data = assigned\<rparr>"

section \<open>Path resolution\<close>

text \<open>
  C1. For every entity instance: with the selector unspecified and the \<^verbatim>\<open>id\<close> field unset
  the collection path is returned; with the selector unspecified and \<^verbatim>\<open>id\<close> set the
  item path is returned, which is the collection path followed by a slash, URL-joined with the
  string of the id; the selector \<^verbatim>\<open>'this'\<close> with \<^verbatim>\<open>id\<close> unset raises
  \<^verbatim>\<open>NoSuchPathError\<close>; the selector \<^verbatim>\<open>'all'\<close> always gives the collection path.
\<close>

theorem path_resolution:
  "(getattr self ''id'' = PNone \<longrightarrow>
      path py server_url self None
        = Inr (urljoin py (server_url @ ''/'') (api_path self)))
 \<and> (getattr self ''id'' \<noteq> PNone \<longrightarrow>
      path py server_url self None
        = Inr (urljoin py (urljoin py (server_url @ ''/'') (api_path self) @ ''/'')
                 (str py (getattr self ''id''))))
 \<and> (getattr self ''id'' = PNone \<longrightarrow>
      path py server_url self (Some ''this'') = Inl NoSuchPathError)
 \<and> path py server_url self (Some ''all'')
      = Inr (urljoin py (server_url @ ''/'') (api_path self))"
  by (simp add: path_def Let_def)

theorem path_resolution_witness:
  "path sample_py ''https://srv'' (sample_entity []) None = Inr ''https://srv/api/v2/domains''
 \<and> path sample_py ''https://srv'' (sample_entity [(''id'', PInt 7)]) None
     = Inr ''https://srv/api/v2/domains/7''
 \<and> path sample_py ''https://srv'' (sample_entity []) (Some ''this'') = Inl NoSuchPathError
 \<and> path sample_py ''https://srv'' (sample_entity [(''id'', PInt 7)]) (Some ''all'')
     = Inr ''https://srv/api/v2/domains''"
  using path_resolution [where self = "sample_entity []" and py = sample_py
          and server_url = "''https://srv''"]
        path_resolution [where self = "sample_entity [(''id'', PInt 7)]" and py = sample_py
          and server_url = "''https://srv''"]
  by (simp add: getattr_def dict_get_def sample_entity_def sample_py_def)

section \<open>Serialized field values\<close>

lemma map_of_dict_of_pairs_aux:
  "map_of (fold (\<lambda>(k, v) d. AList.update k v d) pairs d) = map_of d ++ map_of (rev pairs)"
proof (induction pairs arbitrary: d)
  case Nil
  then show ?case by simp
next
  case (Cons p pairs)
  obtain k v where p: "p = (k, v)" by (cases p)
  show ?case
    by (simp add: p Cons.IH update_conv' map_add_upd_left fun_eq_iff map_add_def
        split: option.splits)
qed

lemma map_of_dict_of_pairs: "map_of (dict_of_pairs pairs) = map_of (rev pairs)"
  by (simp add: dict_of_pairs_def map_of_dict_of_pairs_aux)

lemma distinct_dict_of_pairs_aux:
  "distinct (map fst d) \<Longrightarrow> distinct (map fst (fold (\<lambda>(k, v) d. AList.update k v d) pairs d))"
  by (induction pairs arbitrary: d) (auto simp: distinct_update split: prod.splits)

lemma distinct_dict_of_pairs: "distinct (map fst (dict_of_pairs pairs))"
  by (simp add: dict_of_pairs_def distinct_dict_of_pairs_aux)

lemma map_of_named_values:
  "map_of (rev (map (\<lambda>name. (name, f name)) names)) key
     = (if key \<in> set names then Some (f key) else None)"
  by (induction names) (auto simp: map_add_def split: option.splits)

lemma map_of_dict_self:
  "map_of (dict_self encode self) key
     = (if key \<in> set (field_names self) then Some (encode (getattr self key)) else None)"
  by (simp add: dict_self_def map_of_dict_of_pairs
      map_of_named_values [of "\<lambda>name. encode (getattr self name)"])

lemma map_of_pop_None:
  "map_of (fold (\<lambda>(key, value) fields. if value = PNone then AList.delete key fields else fields)
             items d) key
     = (if (key, PNone) \<in> set items then None else map_of d key)"
  by (induction items arbitrary: d) (auto simp: delete_conv' split: prod.splits)

lemma map_of_get_values:
  "map_of (get_values encode self) key
     = (if key \<in> set (field_names self) \<and> encode (getattr self key) \<noteq> PNone
        then Some (encode (getattr self key)) else None)"
proof -
  have "((key, PNone) \<in> set (dict_self encode self))
          = (map_of (dict_self encode self) key = Some PNone)"
    using distinct_dict_of_pairs
            [of "map (\<lambda>name. (name, encode (getattr self name))) (field_names self)"]
    by (simp add: dict_self_def)
  then show ?thesis
    by (simp add: get_values_def Let_def map_of_pop_None map_of_dict_self)
qed

text \<open>
  C9, as the code has it. For every entity instance, \<^verbatim>\<open>get_values\<close> returns the mapping
  from field names to the values that \<^verbatim>\<open>dict(self)\<close> yields for them, without the fields
  whose value is \<^verbatim>\<open>None\<close>; since the conversion in \<^verbatim>\<open>dict(self)\<close> keeps \<^verbatim>\<open>None\<close> and
  nothing else as \<^verbatim>\<open>None\<close>, these are the fields that read as \<^verbatim>\<open>None\<close>. So a field that
  is explicitly assigned \<^verbatim>\<open>None\<close> is as absent from the result as a field that was never
  assigned and is declared without a default.
\<close>

theorem get_values_omits_None:
  "map_of (get_values encode self) key
     = (if key \<in> set (field_names self) \<and> encode (getattr self key) \<noteq> PNone
        then Some (encode (getattr self key)) else None)
 \<and> ((\<forall>v. (encode v = PNone) = (v = PNone)) \<longrightarrow>
      (map_of (get_values encode self) key = None)
        = (key \<notin> set (field_names self) \<or> getattr self key = PNone))
 \<and> (map_of (data self) key = None \<and> dict_get (defaults self) key = PNone \<longrightarrow>
      get_values encode (setattr self key PNone) = get_values encode self)"
proof (intro conjI impI)
  show "map_of (get_values encode self) key
     = (if key \<in> set (field_names self) \<and> encode (getattr self key) \<noteq> PNone
        then Some (encode (getattr self key)) else None)"
    by (rule map_of_get_values)
next
  assume "\<forall>v. (encode v = PNone) = (v = PNone)"
  then show "(map_of (get_values encode self) key = None)
        = (key \<notin> set (field_names self) \<or> getattr self key = PNone)"
    by (simp add: map_of_get_values)
next
  assume unset: "map_of (data self) key = None \<and> dict_get (defaults self) key = PNone"
  have "getattr (setattr self key PNone) name = getattr self name" for name
    using unset by (simp add: getattr_def setattr_def update_conv' split: option.splits)
  then have "dict_self encode (setattr self key PNone) = dict_self encode self"
    by (simp add: dict_self_def setattr_def)
  then show "get_values encode (setattr self key PNone) = get_values encode self"
    by (simp add: get_values_def)
qed

theorem get_values_omits_None_witness:
  "map_of (get_values (\<lambda>v. v) (sample_entity [(''name'', PStr ''foo'')])) ''name''
     = Some (PStr ''foo'')
 \<and> map_of (get_values (\<lambda>v. v) (sample_entity [(''name'', PStr ''foo'')])) ''description'' = None
 \<and> get_values (\<lambda>v. v) (setattr (sample_entity [(''name'', PStr ''foo'')]) ''description'' PNone)
     = get_values (\<lambda>v. v) (sample_entity [(''name'', PStr ''foo'')])
 \<and> map_of (get_values sample_encode
       \<lparr>api_path = ''api/owners'', field_names = [''id'', ''pets''], defaults = [],
        data = [(''pets'', PList [PInst ''PetEntity'' [(''name'', PStr ''fido'')]])]\<rparr>) ''pets''
     = Some (PList [PDict [(''id'', PNone), (''name'', PStr ''fido'')]])
 \<and> map_of (get_values sample_encode
       \<lparr>api_path = ''api/owners'', field_names = [''id'', ''pets''], defaults = [],
        data = [(''pets'', PList [PInst ''PetEntity'' [(''name'', PStr ''fido'')]])]\<rparr>) ''id''
     = None"
  using get_values_omits_None [of "\<lambda>v. v" "sample_entity [(''name'', PStr ''foo'')]" "''name''"]
        get_values_omits_None [of "\<lambda>v. v" "sample_entity [(''name'', PStr ''foo'')]"
          "''description''"]
        get_values_omits_None [of sample_encode
          "\<lparr>api_path = ''api/owners'', field_names = [''id'', ''pets''], defaults = [],
            data = [(''pets'', PList [PInst ''PetEntity'' [(''name'', PStr ''fido'')]])]\<rparr>"
          "''pets''"]
        get_values_omits_None [of sample_encode
          "\<lparr>api_path = ''api/owners'', field_names = [''id'', ''pets''], defaults = [],
            data = [(''pets'', PList [PInst ''PetEntity'' [(''name'', PStr ''fido'')]])]\<rparr>"
          "''id''"]
  by (simp add: sample_entity_def getattr_def dict_get_def)

text \<open>
  C9 does not hold as stated: a field declared with the default \<^verbatim>\<open>True\<close> is serialized
  with that default when it was never assigned, and is absent once \<^verbatim>\<open>None\<close> is assigned to
  it, so the two are not alike.
\<close>

theorem get_values_declared_default_differs:
  "get_values (\<lambda>v. v)
     \<lparr>api_path = ''api/keys'', field_names = [''id'', ''unlimited''],
      defaults = [(''unlimited'', PBool True)], data = []\<rparr>
     = [(''unlimited'', PBool True)]
 \<and> get_values (\<lambda>v. v)
     (setattr \<lparr>api_path = ''api/keys'', field_names = [''id'', ''unlimited''],
               defaults = [(''unlimited'', PBool True)], data = []\<rparr> ''unlimited'' PNone)
     = []"
  by (simp add: get_values_def dict_self_def dict_of_pairs_def getattr_def setattr_def
      dict_get_def)

section \<open>Value synthesis\<close>






section \<open>Assignment to a one-to-many field\<close>

lemma isinstance_Name: "isinstance issubclass val (Name n) = Inl TypeError"
  by (cases val) simp_all

lemma OneToManyField_set_by_name:
  "OneToManyField_set issubclass fields_of (Name n) field instance val = Inl TypeError"
  by (simp add: OneToManyField_set_def isinstance_Name)

lemma convert_items_Class:
  "\<forall>val \<in> set vals. (\<exists>d. val = PDict d \<and> (\<forall>key \<in> set (map fst d). key \<in> set (fields_of c)))
      \<or> isinstance issubclass val (Class c) = Inr True \<Longrightarrow>
   issubclass c c \<Longrightarrow>
   \<exists>vals'. convert_items fields_of (Class c) vals = Inr vals' \<and> length vals' = length vals
     \<and> (\<forall>val' \<in> set vals'. isinstance issubclass val' (Class c) = Inr True)"
proof (induction vals)
  case Nil
  then show ?case by simp
next
  case (Cons val vals)
  then obtain vals' where IH: "convert_items fields_of (Class c) vals = Inr vals'"
     "length vals' = length vals"
     "\<forall>val' \<in> set vals'. isinstance issubclass val' (Class c) = Inr True"
    by auto
  from Cons.prems(1)
  have "(\<exists>d. val = PDict d \<and> (\<forall>key \<in> set (map fst d). key \<in> set (fields_of c)))
      \<or> isinstance issubclass val (Class c) = Inr True"
    by simp
  then show ?case
  proof
    assume "\<exists>d. val = PDict d \<and> (\<forall>key \<in> set (map fst d). key \<in> set (fields_of c))"
    then obtain d where "val = PDict d" "\<forall>key \<in> set (map fst d). key \<in> set (fields_of c)"
      by blast
    with IH Cons.prems(2) show ?thesis by simp
  next
    assume inst: "isinstance issubclass val (Class c) = Inr True"
    then have "\<not> (\<exists>d. val = PDict d)" by auto
    then have "(case val of PDict d \<Rightarrow> construct fields_of (Class c) d | other \<Rightarrow> Inr other)
                 = Inr val"
      by (cases val) auto
    with IH inst show ?thesis by simp
  qed
qed

text \<open>
  When the target of the field is given as a class, the three shapes are normalised as the
  docstring of \<^verbatim>\<open>OneToManyField\<close> says, for mappings whose keys name fields of the target:
  a single instance of the target and a bare mapping each become a list of one instance, and
  a list of mappings and instances becomes a list of instances of the same length.
\<close>

lemma OneToManyField_set_by_class:
  assumes refl: "issubclass c c"
  shows "(isinstance issubclass val (Class c) = Inr True \<longrightarrow>
            OneToManyField_set issubclass fields_of (Class c) field instance val
              = Inr (setattr instance field (PList [val])))
       \<and> ((\<forall>key \<in> set (map fst d). key \<in> set (fields_of c)) \<longrightarrow>
            OneToManyField_set issubclass fields_of (Class c) field instance (PDict d)
              = Inr (setattr instance field (PList [PInst c d])))
       \<and> ((\<forall>val \<in> set vals.
               (\<exists>d. val = PDict d \<and> (\<forall>key \<in> set (map fst d). key \<in> set (fields_of c)))
               \<or> isinstance issubclass val (Class c) = Inr True)
            \<longrightarrow>
            (\<exists>vals'. OneToManyField_set issubclass fields_of (Class c) field instance (PList vals)
                        = Inr (setattr instance field (PList vals'))
               \<and> length vals' = length vals
               \<and> (\<forall>val' \<in> set vals'. isinstance issubclass val' (Class c) = Inr True)))"
proof (intro conjI impI)
  assume "isinstance issubclass val (Class c) = Inr True"
  then show "OneToManyField_set issubclass fields_of (Class c) field instance val
              = Inr (setattr instance field (PList [val]))"
    by (simp add: OneToManyField_set_def)
next
  assume "\<forall>key \<in> set (map fst d). key \<in> set (fields_of c)"
  then show "OneToManyField_set issubclass fields_of (Class c) field instance (PDict d)
            = Inr (setattr instance field (PList [PInst c d]))"
    by (simp add: OneToManyField_set_def)
next
  assume "\<forall>val \<in> set vals.
               (\<exists>d. val = PDict d \<and> (\<forall>key \<in> set (map fst d). key \<in> set (fields_of c)))
               \<or> isinstance issubclass val (Class c) = Inr True"
  from convert_items_Class [where fields_of = fields_of and c = c and issubclass = issubclass
         and vals = vals, OF this refl]
  show "\<exists>vals'. OneToManyField_set issubclass fields_of (Class c) field instance (PList vals)
                        = Inr (setattr instance field (PList vals'))
               \<and> length vals' = length vals
               \<and> (\<forall>val' \<in> set vals'. isinstance issubclass val' (Class c) = Inr True)"
    by (auto simp: OneToManyField_set_def)
qed

text \<open>
  C5. Assigning a bare mapping to a one-to-many field should leave the field holding a list of
  one instance of the target constructed from that mapping. When the target is declared by
  name, which \<^verbatim>\<open>get_value\<close> of the same class resolves through \<^verbatim>\<open>_get_class\<close>, the
  assignment raises \<^verbatim>\<open>TypeError\<close> instead: \<^verbatim>\<open>__set__\<close> hands the name to
  \<^verbatim>\<open>isinstance\<close>.
\<close>

theorem OneToManyField_set_named_target_raises:
  "OneToManyField_set (=) (\<lambda>c. [''id'', ''name'']) (Name ''PetEntity'') ''pets''
     \<lparr>api_path = ''api/owners'', field_names = [''id'', ''pets''], defaults = [], data = []\<rparr>
     (PDict [(''name'', PStr ''Liberty'')]) = Inl TypeError
 \<and> get_value sample_faux [''PetEntity'' \<mapsto> ''PetEntity''] 0 (OneToManyField (Name ''PetEntity'') [])
     = Inr (PList [PInst ''PetEntity'' []])"
  by (simp add: OneToManyField_set_def)

section \<open>The creation protocol\<close>

lemma str_split_not_Nil: "str_split sep s \<noteq> []"
  by (induction s) (auto split: list.splits)





text \<open>Splitting and joining lose nothing: the lines of a text, joined again, are the text.\<close>

lemma str_join_split: "str_join sep (str_split sep s) = s"
proof (induction s)
  case Nil
  then show ?case by simp
next
  case (Cons c cs)
  show ?case
  proof (cases "str_split sep cs")
    case Nil
    then show ?thesis using str_split_not_Nil [of sep cs] by simp
  next
    case (Cons line lines)
    with Cons.IH show ?thesis
      by (cases lines) auto
  qed
qed




text \<open>
  C6, as the code has it. For every creation call, the pause of five seconds follows the
  submission at once, whatever the return code, before the return code is looked at and
  before \<^verbatim>\<open>create_object\<close> returns or raises; there is one submission and one pause.
  A failed submission then writes its diagnostic to the debug log and raises
  \<^verbatim>\<open>CLIFactoryError\<close>; a successful one returns.
\<close>

theorem create_object_sleeps_first:
  "fst (create_object py cli_object args)
     = [Create (cls_name cli_object) args, Sleep 5]
       @ (if return_code (create cli_object args) \<noteq> 0
          then [LogDebug (stderr (create cli_object args))] else [])
 \<and> (return_code (create cli_object args) \<noteq> 0 \<longrightarrow>
      (\<exists>msg. snd (create_object py cli_object args) = Inl (CLIFactoryError msg)))
 \<and> (return_code (create cli_object args) = 0 \<longrightarrow>
      (\<exists>created. snd (create_object py cli_object args) = Inr created))"
  by (simp add: create_object_def Let_def)

theorem create_object_sleeps_first_witness:
  "fst (create_object sample_py (sample_cli 0 (PDict [(''id'', PStr ''42'')]) []) [])
     = [Create ''Org'' [], Sleep 5]
 \<and> fst (create_object sample_py (sample_cli 70 (PList []) ''Name is taken'') [])
     = [Create ''Org'' [], Sleep 5, LogDebug ''Name is taken'']"
  using create_object_sleeps_first [where py = sample_py and args = "[]"
          and cli_object = "sample_cli 0 (PDict [(''id'', PStr ''42'')]) []"]
        create_object_sleeps_first [where py = sample_py and args = "[]"
          and cli_object = "sample_cli 70 (PList []) ''Name is taken''"]
  by (simp add: sample_cli_def)

text \<open>
  C6 does not hold as stated: a submission that fails with return code 70 is followed by the
  pause of five seconds before the error reaches the caller.
\<close>

theorem failed_submission_still_sleeps:
  "return_code (create (sample_cli 70 (PList []) ''Name is taken'') []) \<noteq> 0
 \<and> create_object sample_py (sample_cli 70 (PList []) ''Name is taken'') []
     = ([Create ''Org'' [], Sleep 5, LogDebug ''Name is taken''],
        Inl (CLIFactoryError
          (''Failed to create Org with {...} data due to:'' @ [CHR 0x0A] @ ''  Name is taken'')))"
  by (simp add: create_object_def sample_cli_def sample_py_def format_error_msg_def)

text \<open>
  C7. Normalising a backend result that is a list of one mapping gives the same mapping as
  normalising that mapping itself.
\<close>

theorem unwrap_idempotent:
  assumes "return_code (create a args) = 0" and "stdout (create a args) = PList [PDict m]"
      and "return_code (create b args') = 0" and "stdout (create b args') = PDict m"
  shows "snd (create_object py a args) = snd (create_object py b args')
       \<and> snd (create_object py b args') = Inr (PDict m)"
  using assms by (simp add: create_object_def Let_def)

theorem unwrap_idempotent_witness:
  "snd (create_object sample_py (sample_cli 0 (PList [PDict [(''id'', PStr ''42'')]]) []) [])
     = snd (create_object sample_py (sample_cli 0 (PDict [(''id'', PStr ''42'')]) []) [])
 \<and> snd (create_object sample_py (sample_cli 0 (PDict [(''id'', PStr ''42'')]) []) [])
     = Inr (PDict [(''id'', PStr ''42'')])"
  using unwrap_idempotent [where py = sample_py and args = "[]" and args' = "[]"
          and m = "[(''id'', PStr ''42'')]"
          and a = "sample_cli 0 (PList [PDict [(''id'', PStr ''42'')]]) []"
          and b = "sample_cli 0 (PDict [(''id'', PStr ''42'')]) []"]
  by (simp add: sample_cli_def)

text \<open>
  C10. \<^verbatim>\<open>create_object\<close> unwraps every non-empty list, not only a list of one element: when
  the backend succeeds with a list of one or more elements, the first element is returned and
  the others are dropped; an empty list is returned as it is.
\<close>

theorem unwrap_every_nonempty_list:
  assumes "return_code (create cli_object args) = 0"
  shows "(\<forall>first rest. stdout (create cli_object args) = PList (first # rest) \<longrightarrow>
            snd (create_object py cli_object args) = Inr first)
       \<and> (stdout (create cli_object args) = PList [] \<longrightarrow>
            snd (create_object py cli_object args) = Inr (PList []))"
  using assms by (simp add: create_object_def Let_def)

theorem unwrap_every_nonempty_list_witness:
  "snd (create_object sample_py
          (sample_cli 0 (PList [PDict [(''id'', PStr ''1'')], PDict [(''id'', PStr ''2'')]]) []) [])
     = Inr (PDict [(''id'', PStr ''1'')])
 \<and> snd (create_object sample_py (sample_cli 0 (PList []) []) []) = Inr (PList [])"
  using unwrap_every_nonempty_list [where py = sample_py and args = "[]"
          and cli_object = "sample_cli 0
                 (PList [PDict [(''id'', PStr ''1'')], PDict [(''id'', PStr ''2'')]]) []"]
        unwrap_every_nonempty_list [where py = sample_py and args = "[]"
          and cli_object = "sample_cli 0 (PList []) []"]
  by (simp add: sample_cli_def)

section \<open>The factories\<close>

lemma one_truthy_org_key:
  assumes "length (filter (\<lambda>key. truthy (dict_get opts key)) ORG_KEYS) = 1"
  shows "opts \<noteq> [] \<and> (truthy (dict_get opts ''organization'')
           \<or> truthy (dict_get opts ''organization-label'')
           \<or> truthy (dict_get opts ''organization-id''))"
proof -
  have "filter (\<lambda>key. truthy (dict_get opts key)) ORG_KEYS \<noteq> []"
    using assms by auto
  then have "\<exists>key \<in> set ORG_KEYS. truthy (dict_get opts key)"
    by (simp add: filter_empty_conv)
  then have any: "truthy (dict_get opts ''organization'')
           \<or> truthy (dict_get opts ''organization-label'')
           \<or> truthy (dict_get opts ''organization-id'')"
    by (auto simp: ORG_KEYS_def)
  moreover have "opts \<noteq> []"
    using any by (auto simp: dict_get_def)
  ultimately show ?thesis by simp
qed

lemma no_truthy_org_key:
  assumes "filter (\<lambda>key. truthy (dict_get opts key)) ORG_KEYS = []"
  shows "\<not> truthy (dict_get opts ''organization'')
       \<and> \<not> truthy (dict_get opts ''organization-label'')
       \<and> \<not> truthy (dict_get opts ''organization-id'')"
  using assms by (auto simp: ORG_KEYS_def split: if_splits)

lemma snd_create_object_cases:
  "(\<exists>rest. snd (create_object py cli_object args)
             = Inl (CLIFactoryError (''Failed to create '' @ rest)))
   \<or> (\<exists>v. snd (create_object py cli_object args) = Inr v)"
  by (simp add: create_object_def Let_def)

lemma update_pair_error: "update_pair element = Inl e \<Longrightarrow> e = TypeError \<or> e = ValueError"
  by (induction element rule: update_pair.induct) auto

lemma update_pairs_error:
  "update_pairs args elements = Inl e \<Longrightarrow> e = TypeError \<or> e = ValueError"
proof (induction elements arbitrary: args)
  case Nil
  then show ?case by simp
next
  case (Cons element rest)
  then show ?case
    by (auto split: sum.splits dest: update_pair_error)
qed

lemma dict_update_error: "dict_update args other = Inl e \<Longrightarrow> e = TypeError \<or> e = ValueError"
  by (cases other) (auto dest: update_pairs_error)

lemma fst_create_object:
  "\<exists>rest. fst (create_object py cli_object args) = Create (cls_name cli_object) args # rest"
  by (simp add: create_object_def Let_def)

text \<open>
  C3. With exactly one of \<^verbatim>\<open>'organization'\<close>, \<^verbatim>\<open>'organization-id'\<close> and
  \<^verbatim>\<open>'organization-label'\<close> set to a truthy value, \<^verbatim>\<open>make_activation_key\<close> passes the
  organization check: it goes on to submit to the backend and does not raise the error of the
  check. With none of the three truthy, with \<^verbatim>\<open>{}\<close> and with \<^verbatim>\<open>None\<close>, it raises
  \<^verbatim>\<open>CLIFactoryError\<close> before anything is submitted.
\<close>

theorem make_activation_key_org_validation:
  "(length (filter (\<lambda>key. truthy (dict_get opts key)) ORG_KEYS) = 1 \<longrightarrow>
      (\<exists>args rest. fst (make_activation_key py ActivationKey rnd (Some opts))
                     = Create (cls_name ActivationKey) args # rest)
      \<and> snd (make_activation_key py ActivationKey rnd (Some opts))
          \<noteq> Inl (CLIFactoryError ''Please provide a valid Organization.''))
 \<and> (filter (\<lambda>key. truthy (dict_get opts key)) ORG_KEYS = [] \<longrightarrow>
      make_activation_key py ActivationKey rnd (Some opts)
        = ([], Inl (CLIFactoryError ''Please provide a valid Organization.'')))
 \<and> make_activation_key py ActivationKey rnd (Some [])
      = ([], Inl (CLIFactoryError ''Please provide a valid Organization.''))
 \<and> make_activation_key py ActivationKey rnd None
      = ([], Inl (CLIFactoryError ''Please provide a valid Organization.''))"
proof (intro conjI impI)
  assume one: "length (filter (\<lambda>key. truthy (dict_get opts key)) ORG_KEYS) = 1"
  define args where "args = update_dictionary
     [(''content-view'', PNone), (''content-view-id'', PNone), (''description'', PNone),
      (''lifecycle-environment'', PNone), (''lifecycle-environment-id'', PNone),
      (''max-content-hosts'', PNone), (''name'', PStr (generate_name rnd None)),
      (''organization'', PNone), (''organization-id'', PNone),
      (''organization-label'', PNone), (''unlimited-content-hosts'', PBool True)] (Some opts)"
  have run: "make_activation_key py ActivationKey rnd (Some opts)
      = (case create_object py ActivationKey args of
              (events, Inl e) \<Rightarrow> (events, Inl e)
            | (events, Inr created) \<Rightarrow> (events, dict_update args created))"
    using one_truthy_org_key [OF one] by (auto simp: make_activation_key_def args_def Let_def)
  obtain events res where co: "create_object py ActivationKey args = (events, res)"
    by (cases "create_object py ActivationKey args")
  from fst_create_object [of py ActivationKey args] co
  obtain rest where ev: "events = Create (cls_name ActivationKey) args # rest" by auto
  show "\<exists>args rest. fst (make_activation_key py ActivationKey rnd (Some opts))
                     = Create (cls_name ActivationKey) args # rest"
    using run co ev by (auto split: sum.splits)
  show "snd (make_activation_key py ActivationKey rnd (Some opts))
          \<noteq> Inl (CLIFactoryError ''Please provide a valid Organization.'')"
  proof (cases res)
    case (Inl e)
    with snd_create_object_cases [of py ActivationKey args] co
    obtain r where "e = CLIFactoryError (''Failed to create '' @ r)" by auto
    with run co Inl show ?thesis by simp
  next
    case (Inr created)
    have "dict_update args created
            \<noteq> Inl (CLIFactoryError ''Please provide a valid Organization.'')"
      using dict_update_error [of args created] by auto
    with run co Inr show ?thesis by simp
  qed
next
  assume "filter (\<lambda>key. truthy (dict_get opts key)) ORG_KEYS = []"
  from no_truthy_org_key [OF this]
  show "make_activation_key py ActivationKey rnd (Some opts)
        = ([], Inl (CLIFactoryError ''Please provide a valid Organization.''))"
    by (simp add: make_activation_key_def)
next
  show "make_activation_key py ActivationKey rnd (Some [])
      = ([], Inl (CLIFactoryError ''Please provide a valid Organization.''))"
    by (simp add: make_activation_key_def)
next
  show "make_activation_key py ActivationKey rnd None
      = ([], Inl (CLIFactoryError ''Please provide a valid Organization.''))"
    by (simp add: make_activation_key_def)
qed

theorem make_activation_key_org_validation_witness:
  "(\<exists>args rest.
      fst (make_activation_key sample_py (sample_cli 0 (PDict [(''id'', PStr ''42'')]) []) 0
             (Some [(''organization-id'', PInt 1)]))
        = Create (cls_name (sample_cli 0 (PDict [(''id'', PStr ''42'')]) [])) args # rest)
 \<and> make_activation_key sample_py (sample_cli 0 (PDict [(''id'', PStr ''42'')]) []) 0
      (Some [(''name'', PStr ''key1''), (''organization'', PStr [])])
     = ([], Inl (CLIFactoryError ''Please provide a valid Organization.''))"
  using make_activation_key_org_validation [where py = sample_py and rnd = 0
          and ActivationKey = "sample_cli 0 (PDict [(''id'', PStr ''42'')]) []"
          and opts = "[(''organization-id'', PInt 1)]"]
        make_activation_key_org_validation [where py = sample_py and rnd = 0
          and ActivationKey = "sample_cli 0 (PDict [(''id'', PStr ''42'')]) []"
          and opts = "[(''name'', PStr ''key1''), (''organization'', PStr [])]"]
  by (simp add: ORG_KEYS_def dict_get_def)

lemma generate_name_not_empty: "generate_name rnd minimum \<noteq> []"
  by (cases minimum) (simp_all add: generate_name_def)

lemma map_of_merge_dicts_other:
  "key \<notin> fst ` set updates \<Longrightarrow> map_of (merge_dicts default' updates) key = map_of default' key"
  by (induction default' updates rule: merge_dicts.induct) (auto simp: update_conv')

lemma map_of_update_dictionary_other:
  assumes "case updates of None \<Rightarrow> True | Some u \<Rightarrow> map_of u key = None"
  shows "map_of (update_dictionary default' updates) key = map_of default' key"
proof (cases updates)
  case None
  then show ?thesis by (simp add: update_dictionary_def)
next
  case (Some u)
  with assms have "key \<notin> fst ` set u" by (simp add: map_of_eq_None_iff)
  with Some show ?thesis by (simp add: update_dictionary_def map_of_merge_dicts_other)
qed

text \<open>
  C8, as the code has it. \<^verbatim>\<open>make_org\<close> called without a name synthesizes a non-empty name
  and submits it. When the backend succeeds with a mapping (bare or first in a list), the
  mapping returned holds every field of that mapping, and for every other key the attribute
  that was submitted: the normalised backend result is merged over the attributes. So it
  holds the synthesized name when the backend result carries no name or the same name.
\<close>

theorem make_org_merges_result_over_args:
  assumes no_name: "case options of None \<Rightarrow> True | Some opts \<Rightarrow> map_of opts ''name'' = None"
      and args: "args = update_dictionary
                   [(''name'', PStr (generate_name rnd (Some 6))),
                    (''label'', PNone), (''description'', PNone)] options"
      and ok: "return_code (create Org args) = 0"
      and out: "stdout (create Org args) = PDict created
                \<or> (\<exists>rest. stdout (create Org args) = PList (PDict created # rest))"
  shows "generate_name rnd (Some 6) \<noteq> []
       \<and> map_of args ''name'' = Some (PStr (generate_name rnd (Some 6)))
       \<and> (\<exists>result. make_org py Org rnd options
                      = ([Create (cls_name Org) args, Sleep 5], Inr result)
            \<and> (\<forall>key. map_of result key
                        = (case map_of created key of
                             Some v \<Rightarrow> Some v
                           | None \<Rightarrow> map_of args key))
            \<and> (map_of created ''name'' = None
                 \<or> map_of created ''name'' = Some (PStr (generate_name rnd (Some 6)))
               \<longrightarrow> map_of result ''name'' = Some (PStr (generate_name rnd (Some 6)))))"
proof -
  have co: "create_object py Org args
              = ([Create (cls_name Org) args, Sleep 5], Inr (PDict created))"
    using ok out by (auto simp: create_object_def Let_def)
  have run: "make_org py Org rnd options
      = ([Create (cls_name Org) args, Sleep 5], Inr (AList.merge args created))"
    using co by (simp add: make_org_def Let_def args [symmetric])
  have name: "map_of args ''name'' = Some (PStr (generate_name rnd (Some 6)))"
    using map_of_update_dictionary_other [OF no_name] by (simp add: args)
  have merged: "\<forall>key. map_of (AList.merge args created) key
                        = (case map_of created key of
                             Some v \<Rightarrow> Some v
                           | None \<Rightarrow> map_of args key)"
    by (simp add: merge_conv' map_add_def split: option.splits)
  have merged_name: "map_of created ''name'' = None
                 \<or> map_of created ''name'' = Some (PStr (generate_name rnd (Some 6)))
               \<longrightarrow> map_of (AList.merge args created) ''name''
                     = Some (PStr (generate_name rnd (Some 6)))"
    using name by (auto simp: merge_conv' map_add_def)
  have "\<exists>result. make_org py Org rnd options
                      = ([Create (cls_name Org) args, Sleep 5], Inr result)
            \<and> (\<forall>key. map_of result key
                        = (case map_of created key of
                             Some v \<Rightarrow> Some v
                           | None \<Rightarrow> map_of args key))
            \<and> (map_of created ''name'' = None
                 \<or> map_of created ''name'' = Some (PStr (generate_name rnd (Some 6)))
               \<longrightarrow> map_of result ''name'' = Some (PStr (generate_name rnd (Some 6))))"
    using run merged merged_name by (intro exI [of _ "AList.merge args created"] conjI)
  with generate_name_not_empty [of rnd "Some 6"] name show ?thesis
    by (intro conjI)
qed

theorem make_org_merges_result_over_args_witness:
  "generate_name 0 (Some 6) \<noteq> []
 \<and> (\<exists>result. snd (make_org sample_py (sample_cli 0 (PList [PDict [(''id'', PStr ''42'')]]) []) 0
                     (Some []))
               = Inr result
      \<and> map_of result ''name'' = Some (PStr (generate_name 0 (Some 6)))
      \<and> map_of result ''id'' = Some (PStr ''42''))"
proof -
  let ?args = "update_dictionary
                   [(''name'', PStr (generate_name 0 (Some 6))),
                    (''label'', PNone), (''description'', PNone)] (Some [])"
  have "generate_name 0 (Some 6) \<noteq> []
       \<and> map_of ?args ''name'' = Some (PStr (generate_name 0 (Some 6)))
       \<and> (\<exists>result. make_org sample_py (sample_cli 0 (PList [PDict [(''id'', PStr ''42'')]]) []) 0
                      (Some [])
                      = ([Create (cls_name (sample_cli 0 (PList [PDict [(''id'', PStr ''42'')]]) []))
                            ?args, Sleep 5], Inr result)
            \<and> (\<forall>key. map_of result key
                        = (case map_of [(''id'', PStr ''42'')] key of
                             Some v \<Rightarrow> Some v
                           | None \<Rightarrow> map_of ?args key))
            \<and> (map_of [(''id'', PStr ''42'')] ''name'' = None
                 \<or> map_of [(''id'', PStr ''42'')] ''name''
                     = Some (PStr (generate_name 0 (Some 6)))
               \<longrightarrow> map_of result ''name'' = Some (PStr (generate_name 0 (Some 6)))))"
    by (rule make_org_merges_result_over_args [where created = "[(''id'', PStr ''42'')]"])
       (simp_all add: sample_cli_def)
  then show ?thesis by auto
qed

text \<open>
  C8 does not hold as stated: when the backend reports a name of its own, here \<^verbatim>\<open>other\<close>,
  the mapping returned holds that name and not the synthesized one, here \<^verbatim>\<open>abcdef\<close>.
\<close>

theorem make_org_backend_name_wins:
  "generate_name 0 (Some 6) = ''abcdef''
 \<and> make_org sample_py
      (sample_cli 0 (PDict [(''id'', PStr ''42''), (''name'', PStr ''other'')]) []) 0 (Some [])
     = ([Create ''Org'' [(''name'', PStr ''abcdef''), (''label'', PNone), (''description'', PNone)],
         Sleep 5],
        Inr [(''name'', PStr ''other''), (''label'', PNone), (''description'', PNone),
             (''id'', PStr ''42'')])"
  by code_simp

end
